theory Spec2Isabelle
  imports Complex_Main
begin

section \<open>PubMed fetcher: the data the code handles\<close>

text \<open>
  The embedding follows \<^verbatim>\<open>src/pubmed.py\<close>. The three library calls the function makes
  (\<^verbatim>\<open>requests.get\<close>, \<^verbatim>\<open>response.json\<close>, \<^verbatim>\<open>ET.fromstring\<close>) are parameters of the model,
  collected in an environment; everything the function itself does with their results is
  written out. A Python \<^verbatim>\<open>str\<close> is a HOL \<open>string\<close>, one \<open>char\<close> standing for one
  character.
\<close>

subsection \<open>Exceptions\<close>

text \<open>
  The function has no \<^verbatim>\<open>try\<close>: whatever a callee raises leaves \<^verbatim>\<open>fetch_papers\<close>.
  \<open>RequestException\<close> is what \<^verbatim>\<open>requests.get\<close> raises when no response arrives,
  \<open>JSONDecodeError\<close> what \<^verbatim>\<open>response.json()\<close> raises on a body that is not JSON,
  \<open>AttributeError\<close> what \<^verbatim>\<open>.get\<close> raises on a value that is not a dict,
  \<open>TypeError\<close> what \<^verbatim>\<open>",".join\<close> raises, \<open>ParseError\<close> what \<^verbatim>\<open>ET.fromstring\<close> raises.
\<close>

datatype exn = RequestException | JSONDecodeError | AttributeError | TypeError | ParseError

subsection \<open>Decoded JSON values\<close>

text \<open>
  What \<^verbatim>\<open>response.json()\<close> returns: \<^verbatim>\<open>None\<close>, a bool, an int, a float (by its value), a
  str, a list or a dict with str keys (an association list, looked up with \<open>map_of\<close>).
\<close>

datatype json =
    JNull
  | JBool bool
  | JInt int
  | JFloat rat
  | JStr string
  | JArr "json list"
  | JObj "(string \<times> json) list"

text \<open>\<^verbatim>\<open>d.get(key, default)\<close>: only a dict has the method.\<close>

fun py_get :: "json \<Rightarrow> string \<Rightarrow> json \<Rightarrow> exn + json" where
  "py_get (JObj kvs) k d = Inr (case map_of kvs k of None \<Rightarrow> d | Some v \<Rightarrow> v)"
| "py_get _ k d = Inl AttributeError"

text \<open>Truth value of a decoded value, as \<^verbatim>\<open>if not ids\<close> tests it.\<close>

fun truthy :: "json \<Rightarrow> bool" where
  "truthy JNull = False"
| "truthy (JBool b) = b"
| "truthy (JInt i) = (i \<noteq> 0)"
| "truthy (JFloat r) = (r \<noteq> 0)"
| "truthy (JStr s) = (s \<noteq> [])"
| "truthy (JArr xs) = (xs \<noteq> [])"
| "truthy (JObj kvs) = (kvs \<noteq> [])"

fun as_str :: "json \<Rightarrow> string option" where
  "as_str (JStr s) = Some s"
| "as_str _ = None"

text \<open>\<^verbatim>\<open>sep.join(xs)\<close> on a list of strings.\<close>

fun join :: "string \<Rightarrow> string list \<Rightarrow> string" where
  "join sep [] = []"
| "join sep [x] = x"
| "join sep (x # y # ys) = x @ sep @ join sep (y # ys)"

text \<open>
  \<^verbatim>\<open>sep.join(v)\<close> on a decoded value: a list must hold strings only, a str is iterated
  character by character, a dict by its keys; nothing else is iterable.
\<close>

fun str_join :: "string \<Rightarrow> json \<Rightarrow> exn + string" where
  "str_join sep (JArr xs) =
     (case those (map as_str xs) of None \<Rightarrow> Inl TypeError | Some ss \<Rightarrow> Inr (join sep ss))"
| "str_join sep (JStr s) = Inr (join sep (map (\<lambda>c. [c]) s))"
| "str_join sep (JObj kvs) = Inr (join sep (map fst kvs))"
| "str_join sep _ = Inl TypeError"

subsection \<open>Element trees\<close>

text \<open>
  An \<^verbatim>\<open>xml.etree.ElementTree.Element\<close>: its tag, its \<^verbatim>\<open>.text\<close> (\<^verbatim>\<open>None\<close> when the element
  has no text before its first child) and its children in order. Attributes and tails
  are never read by the code.
\<close>

datatype element = Element (tag: string) (text_of: "string option") (children: "element list")

text \<open>\<^verbatim>\<open>Element.iter(tag)\<close>: the element itself when its tag matches, then its subtree.\<close>

fun iter :: "string \<Rightarrow> element \<Rightarrow> element list" where
  "iter t (Element g x cs) =
     (if g = t then [Element g x cs] else []) @ concat (map (iter t) cs)"

text \<open>
  The steps of the paths the code uses: \<^verbatim>\<open>.\<close>, \<^verbatim>\<open>//tag\<close> and \<^verbatim>\<open>tag\<close>. The descendant
  step yields \<^verbatim>\<open>elem.iter(tag)\<close> without \<^verbatim>\<open>elem\<close> itself, which can only be its first item.
\<close>

datatype step = Self | Descendant string | Child string

fun select :: "step \<Rightarrow> element list \<Rightarrow> element list" where
  "select Self result = result"
| "select (Descendant t) result =
     concat (map (\<lambda>elem. concat (map (iter t) (children elem))) result)"
| "select (Child t) result =
     concat (map (\<lambda>elem. filter (\<lambda>e. tag e = t) (children elem)) result)"

definition iterfind :: "element \<Rightarrow> step list \<Rightarrow> element list" where
  "iterfind elem path = fold select path [elem]"

definition findall :: "element \<Rightarrow> step list \<Rightarrow> element list" where
  "findall elem path = iterfind elem path"

definition find_first :: "element \<Rightarrow> step list \<Rightarrow> element option" where
  "find_first elem path = (case iterfind elem path of [] \<Rightarrow> None | e # _ \<Rightarrow> Some e)"

text \<open>Document order, stated on its own: an element before its subtree, children left to right.\<close>

fun preorder :: "element \<Rightarrow> element list" where
  "preorder (Element g x cs) = Element g x cs # concat (map preorder cs)"

definition below :: "element \<Rightarrow> element list" where
  "below e = concat (map preorder (children e))"

subsection \<open>Requests, responses and the world\<close>

datatype param = PStr string | PInt int

record response =
  status_code :: int
  body :: string

text \<open>
  The library calls: \<open>requests_get\<close> answers a request or gives \<open>None\<close> when
  \<^verbatim>\<open>requests.get\<close> raises, \<open>json_loads\<close> and \<open>ET_fromstring\<close> give \<open>None\<close> on a body
  they reject.
\<close>

record env =
  requests_get :: "string \<Rightarrow> (string \<times> param) list \<Rightarrow> response option"
  json_loads :: "string \<Rightarrow> json option"
  ET_fromstring :: "string \<Rightarrow> element option"

text \<open>What a run leaves behind: the requests sent and the lines printed, oldest first.\<close>

record world =
  sent :: "(string \<times> (string \<times> param) list) list"
  printed :: "string list"

definition send_get :: "env \<Rightarrow> string \<Rightarrow> (string \<times> param) list \<Rightarrow> world \<Rightarrow> (exn + response) \<times> world" where
  "send_get E url params w =
     (case requests_get E url params of None \<Rightarrow> Inl RequestException | Some r \<Rightarrow> Inr r,
      w\<lparr>sent := sent w @ [(url, params)]\<rparr>)"

definition echo :: "string \<Rightarrow> world \<Rightarrow> world" where
  "echo msg w = w\<lparr>printed := printed w @ [msg]\<rparr>"

definition response_json :: "env \<Rightarrow> response \<Rightarrow> exn + json" where
  "response_json E r = (case json_loads E (body r) of None \<Rightarrow> Inl JSONDecodeError | Some v \<Rightarrow> Inr v)"

definition fromstring :: "env \<Rightarrow> string \<Rightarrow> exn + element" where
  "fromstring E s = (case ET_fromstring E s of None \<Rightarrow> Inl ParseError | Some tree \<Rightarrow> Inr tree)"

section \<open>The fetcher\<close>

definition PUBMED_SEARCH_URL :: string where
  "PUBMED_SEARCH_URL = ''https://eutils.ncbi.nlm.nih.gov/entrez/eutils/esearch.fcgi''"

definition PUBMED_FETCH_URL :: string where
  "PUBMED_FETCH_URL = ''https://eutils.ncbi.nlm.nih.gov/entrez/eutils/efetch.fcgi''"

definition search_params :: "string \<Rightarrow> (string \<times> param) list" where
  "search_params query =
     [(''db'', PStr ''pubmed''), (''term'', PStr query), (''retmode'', PStr ''json''),
      (''retmax'', PInt 10)]"

definition details_params :: "string \<Rightarrow> (string \<times> param) list" where
  "details_params joined =
     [(''db'', PStr ''pubmed''), (''id'', PStr joined), (''retmode'', PStr ''xml'')]"

text \<open>Line 26: \<^verbatim>\<open>data.get("esearchresult", {}).get("idlist", [])\<close>.\<close>

definition idlist :: "json \<Rightarrow> exn + json" where
  "idlist data =
     (case py_get data ''esearchresult'' (JObj []) of
        Inl e \<Rightarrow> Inl e
      | Inr r \<Rightarrow> py_get r ''idlist'' (JArr []))"

text \<open>How an f-string renders a \<^verbatim>\<open>.text\<close>: \<^verbatim>\<open>None\<close> becomes the four letters.\<close>

fun format_text :: "string option \<Rightarrow> string" where
  "format_text None = ''None''"
| "format_text (Some s) = s"

text \<open>Lines 56 to 60: the loop over the \<^verbatim>\<open>Author\<close> nodes, appending to \<^verbatim>\<open>authors_list\<close>.\<close>

fun authors_loop :: "element list \<Rightarrow> string list \<Rightarrow> string list" where
  "authors_loop [] authors_list = authors_list"
| "authors_loop (author # rest) authors_list =
     (let lastname = find_first author [Child ''LastName''];
          forename = find_first author [Child ''ForeName'']
      in case (lastname, forename) of
           (Some l, Some f) \<Rightarrow>
             authors_loop rest (authors_list @ [format_text (text_of f) @ '' '' @ format_text (text_of l)])
         | _ \<Rightarrow> authors_loop rest authors_list)"

text \<open>
  A record of the result: the dict of lines 64 to 69, keys in insertion order. A value
  is \<open>None\<close> where Python holds \<^verbatim>\<open>None\<close>.
\<close>

type_synonym paper = "(string \<times> string option) list"

text \<open>Lines 49 to 69: the body of the loop over the articles.\<close>

definition paper_of :: "element \<Rightarrow> paper" where
  "paper_of article =
     (let pmid = (case find_first article [Self, Descendant ''PMID''] of
                    Some e \<Rightarrow> text_of e | None \<Rightarrow> Some ''N/A'');
          title = (case find_first article [Self, Descendant ''ArticleTitle''] of
                    Some e \<Rightarrow> text_of e | None \<Rightarrow> Some ''N/A'');
          abstract_elem = find_first article [Self, Descendant ''Abstract'', Child ''AbstractText''];
          abstract = (case abstract_elem of Some e \<Rightarrow> text_of e | None \<Rightarrow> Some ''N/A'');
          authors_list = authors_loop (findall article [Self, Descendant ''Author'']) [];
          authors = (if authors_list \<noteq> [] then join '', '' authors_list else ''N/A'')
      in [(''PubmedID'', pmid), (''Title'', title), (''Authors'', Some authors),
          (''Abstract'', abstract)])"

text \<open>Lines 48 and 64: the loop over the articles, appending to \<^verbatim>\<open>papers\<close>.\<close>

fun papers_loop :: "element list \<Rightarrow> paper list \<Rightarrow> paper list" where
  "papers_loop [] papers = papers"
| "papers_loop (article # rest) papers = papers_loop rest (papers @ [paper_of article])"

definition extract_papers :: "element \<Rightarrow> paper list" where
  "extract_papers tree = papers_loop (findall tree [Self, Descendant ''PubmedArticle'']) []"

text \<open>
  \<^verbatim>\<open>fetch_papers(query)\<close>: the result is \<open>Inl\<close> an exception that left the function or
  \<open>Inr\<close> the list returned, together with the world after the run.
\<close>

definition fetch_papers :: "env \<Rightarrow> string \<Rightarrow> world \<Rightarrow> (exn + paper list) \<times> world" where
  "fetch_papers E query w0 =
     (case send_get E PUBMED_SEARCH_URL (search_params query) w0 of
        (Inl e, w1) \<Rightarrow> (Inl e, w1)
      | (Inr response, w1) \<Rightarrow>
          if status_code response \<noteq> 200
          then (Inr [], echo ''Error: Failed to fetch data from PubMed.'' w1)
          else
            (case response_json E response of
               Inl e \<Rightarrow> (Inl e, w1)
             | Inr data \<Rightarrow>
                 (case idlist data of
                    Inl e \<Rightarrow> (Inl e, w1)
                  | Inr ids \<Rightarrow>
                      if \<not> truthy ids
                      then (Inr [], echo ''No papers found for the given query.'' w1)
                      else
                        (case str_join '','' ids of
                           Inl e \<Rightarrow> (Inl e, w1)
                         | Inr joined \<Rightarrow>
                             (case send_get E PUBMED_FETCH_URL (details_params joined) w1 of
                                (Inl e, w2) \<Rightarrow> (Inl e, w2)
                              | (Inr details_response, w2) \<Rightarrow>
                                  if status_code details_response \<noteq> 200
                                  then (Inr [], echo ''Error: Failed to fetch paper details.'' w2)
                                  else
                                    (case fromstring E (body details_response) of
                                       Inl e \<Rightarrow> (Inl e, w2)
                                     | Inr tree \<Rightarrow> (Inr (extract_papers tree), w2)))))))"

text \<open>
  The answer to the second request of a run, when the run sent one and it was answered:
  read off the requests the run added to the world.
\<close>

definition fetch_response :: "env \<Rightarrow> string \<Rightarrow> world \<Rightarrow> response option" where
  "fetch_response E query w =
     (case drop (length (sent w)) (sent (snd (fetch_papers E query w))) of
        [s, (url, params)] \<Rightarrow> requests_get E url params
      | _ \<Rightarrow> None)"

section \<open>Notions the properties are stated with\<close>

text \<open>The sub-nodes of an element with a given tag, in document order.\<close>

definition sub_nodes :: "string \<Rightarrow> element \<Rightarrow> element list" where
  "sub_nodes t e = filter (\<lambda>x. tag x = t) (below e)"

text \<open>The children of an element with a given tag, in order.\<close>

definition child_nodes :: "string \<Rightarrow> element \<Rightarrow> element list" where
  "child_nodes t e = filter (\<lambda>x. tag x = t) (children e)"

text \<open>
  The authors field as the specification words it: every \<^verbatim>\<open>Author\<close> sub-node that has
  both a \<^verbatim>\<open>ForeName\<close> and a \<^verbatim>\<open>LastName\<close> child gives the pair of their texts, the
  pairs are joined with a comma and a space, and the field is \<^verbatim>\<open>N/A\<close> when there is none.
\<close>

definition name_pair :: "element \<Rightarrow> string list" where
  "name_pair author =
     (case (child_nodes ''ForeName'' author, child_nodes ''LastName'' author) of
        (f # _, l # _) \<Rightarrow> [format_text (text_of f) @ '' '' @ format_text (text_of l)]
      | _ \<Rightarrow> [])"

definition authors_spec :: "element \<Rightarrow> string" where
  "authors_spec article =
     (let pairs = concat (map name_pair (sub_nodes ''Author'' article))
      in if pairs = [] then ''N/A'' else join '', '' pairs)"

text \<open>The requests a run added to the world.\<close>

definition requests_of :: "env \<Rightarrow> string \<Rightarrow> world \<Rightarrow> (string \<times> (string \<times> param) list) list" where
  "requests_of E query w = drop (length (sent w)) (sent (snd (fetch_papers E query w)))"

text \<open>The lines a run printed.\<close>

definition messages_of :: "env \<Rightarrow> string \<Rightarrow> world \<Rightarrow> string list" where
  "messages_of E query w = drop (length (printed w)) (printed (snd (fetch_papers E query w)))"

section \<open>Sample inputs\<close>

text \<open>
  An environment with fixed answers: \<open>r1\<close> from the search endpoint, \<open>r2\<close> from any other
  address, \<open>data\<close> from the JSON decoder and \<open>tree\<close> from the XML parser.
\<close>

definition canned :: "response option \<Rightarrow> json option \<Rightarrow> response option \<Rightarrow> element option \<Rightarrow> env" where
  "canned r1 data r2 tree =
     \<lparr>requests_get = (\<lambda>url params. if url = PUBMED_SEARCH_URL then r1 else r2),
      json_loads = (\<lambda>s. data),
      ET_fromstring = (\<lambda>s. tree)\<rparr>"

definition reply :: "int \<Rightarrow> response option" where
  "reply code = Some \<lparr>status_code = code, body = []\<rparr>"

definition fresh :: world where
  "fresh = \<lparr>sent = [], printed = []\<rparr>"

definition ids_found :: "json list \<Rightarrow> json option" where
  "ids_found xs = Some (JObj [(''esearchresult'', JObj [(''idlist'', JArr xs)])])"

text \<open>The scenario of the specification: one article with every field present.\<close>

definition example_article :: element where
  "example_article =
     Element ''PubmedArticle'' None
       [Element ''MedlineCitation'' None
          [Element ''PMID'' (Some ''12345'') [],
           Element ''Article'' None
             [Element ''ArticleTitle'' (Some ''Example Study'') [],
              Element ''Abstract'' None
                [Element ''AbstractText'' (Some ''An example abstract.'') []],
              Element ''AuthorList'' None
                [Element ''Author'' None
                   [Element ''LastName'' (Some ''Smith'') [],
                    Element ''ForeName'' (Some ''Jane'') []]]]]]"

definition example_record :: paper where
  "example_record =
     [(''PubmedID'', Some ''12345''), (''Title'', Some ''Example Study''),
      (''Authors'', Some ''Jane Smith''), (''Abstract'', Some ''An example abstract.'')]"

definition blank_record :: paper where
  "blank_record =
     [(''PubmedID'', None), (''Title'', Some ''N/A''), (''Authors'', Some ''N/A''),
      (''Abstract'', Some ''N/A'')]"

definition article_set :: "element list \<Rightarrow> element" where
  "article_set articles = Element ''PubmedArticleSet'' None articles"

text \<open>An article whose \<^verbatim>\<open>PMID\<close> element is there and empty, and nothing else.\<close>

definition blank_article :: element where
  "blank_article = Element ''PubmedArticle'' None [Element ''PMID'' None []]"

text \<open>An article with three authors: a full name, a last name only, a full name.\<close>

definition lone_author :: element where
  "lone_author = Element ''Author'' None [Element ''LastName'' (Some ''Doe'') []]"

definition authors_article :: element where
  "authors_article =
     Element ''PubmedArticle'' None
       [Element ''AuthorList'' None
          [Element ''Author'' None
             [Element ''LastName'' (Some ''Smith'') [], Element ''ForeName'' (Some ''Jane'') []],
           lone_author,
           Element ''Author'' None
             [Element ''LastName'' (Some ''Roe'') [], Element ''ForeName'' (Some ''John'') []]]]"

text \<open>An author whose two name elements are there and empty, and an article with it.\<close>

definition nameless_author :: element where
  "nameless_author = Element ''Author'' None [Element ''LastName'' None [], Element ''ForeName'' None []]"

definition nameless_article :: element where
  "nameless_article = Element ''PubmedArticle'' None [Element ''AuthorList'' None [nameless_author]]"




text \<open>
  An article whose \<^verbatim>\<open>Abstract\<close> holds another \<^verbatim>\<open>Abstract\<close> before its own
  \<^verbatim>\<open>AbstractText\<close>.
\<close>

definition nested_article :: element where
  "nested_article =
     Element ''PubmedArticle'' None
       [Element ''Abstract'' None
          [Element ''Abstract'' None [Element ''AbstractText'' (Some ''inner'') []],
           Element ''AbstractText'' (Some ''outer'') []]]"

section \<open>Auxiliary facts\<close>

lemma papers_loop_append: "papers_loop as acc = acc @ map paper_of as"
  by (induction as arbitrary: acc) simp_all

lemma iter_preorder: "iter t e = filter (\<lambda>x. tag x = t) (preorder e)"
proof (induction e rule: preorder.induct)
  case (1 g x cs)
  have "concat (map (iter t) cs) = concat (map (\<lambda>c. filter (\<lambda>x. tag x = t) (preorder c)) cs)"
    using 1 by (auto intro: arg_cong [where f = concat])
  then show ?case by (simp add: filter_concat comp_def)
qed

lemma iter_fun: "iter t = (\<lambda>e. filter (\<lambda>x. tag x = t) (preorder e))"
  by (rule ext) (rule iter_preorder)

lemma descendants_below:
  "concat (map (iter t) (children e)) = filter (\<lambda>x. tag x = t) (below e)"
  by (simp add: below_def iter_fun filter_concat comp_def)

lemma findall_descendant: "findall e [Self, Descendant t] = filter (\<lambda>x. tag x = t) (below e)"
  by (simp add: findall_def iterfind_def descendants_below)

lemma find_first_descendant:
  "find_first e [Self, Descendant t] = (case filter (\<lambda>x. tag x = t) (below e) of [] \<Rightarrow> None | y # _ \<Rightarrow> Some y)"
  by (simp add: find_first_def iterfind_def descendants_below)

lemma find_first_child:
  "find_first e [Child t] = (case filter (\<lambda>x. tag x = t) (children e) of [] \<Rightarrow> None | y # _ \<Rightarrow> Some y)"
  by (simp add: find_first_def iterfind_def)

lemma extract_papers_eq:
  "extract_papers tree = map paper_of (filter (\<lambda>e. tag e = ''PubmedArticle'') (below tree))"
  by (simp add: extract_papers_def papers_loop_append findall_descendant)

lemma fetch_papers_search_raises:
  assumes "requests_get E PUBMED_SEARCH_URL (search_params q) = None"
  shows "fetch_papers E q w =
    (Inl RequestException, w\<lparr>sent := sent w @ [(PUBMED_SEARCH_URL, search_params q)]\<rparr>)"
  using assms by (simp add: fetch_papers_def send_get_def)

lemma fetch_papers_search_status:
  assumes "requests_get E PUBMED_SEARCH_URL (search_params q) = Some r" "status_code r \<noteq> 200"
  shows "fetch_papers E q w =
    (Inr [], echo ''Error: Failed to fetch data from PubMed.''
       (w\<lparr>sent := sent w @ [(PUBMED_SEARCH_URL, search_params q)]\<rparr>))"
  using assms by (simp add: fetch_papers_def send_get_def)

lemma fetch_papers_not_json:
  assumes "requests_get E PUBMED_SEARCH_URL (search_params q) = Some r" "status_code r = 200"
    "json_loads E (body r) = None"
  shows "fetch_papers E q w =
    (Inl JSONDecodeError, w\<lparr>sent := sent w @ [(PUBMED_SEARCH_URL, search_params q)]\<rparr>)"
  using assms by (simp add: fetch_papers_def send_get_def response_json_def)

lemma fetch_papers_idlist_raises:
  assumes "requests_get E PUBMED_SEARCH_URL (search_params q) = Some r" "status_code r = 200"
    "json_loads E (body r) = Some data" "idlist data = Inl e"
  shows "fetch_papers E q w =
    (Inl e, w\<lparr>sent := sent w @ [(PUBMED_SEARCH_URL, search_params q)]\<rparr>)"
  using assms by (simp add: fetch_papers_def send_get_def response_json_def)

lemma fetch_papers_no_ids:
  assumes "requests_get E PUBMED_SEARCH_URL (search_params q) = Some r" "status_code r = 200"
    "json_loads E (body r) = Some data" "idlist data = Inr ids" "\<not> truthy ids"
  shows "fetch_papers E q w =
    (Inr [], echo ''No papers found for the given query.''
       (w\<lparr>sent := sent w @ [(PUBMED_SEARCH_URL, search_params q)]\<rparr>))"
  using assms by (simp add: fetch_papers_def send_get_def response_json_def)

lemma fetch_papers_join_raises:
  assumes "requests_get E PUBMED_SEARCH_URL (search_params q) = Some r" "status_code r = 200"
    "json_loads E (body r) = Some data" "idlist data = Inr ids" "truthy ids"
    "str_join '','' ids = Inl e"
  shows "fetch_papers E q w =
    (Inl e, w\<lparr>sent := sent w @ [(PUBMED_SEARCH_URL, search_params q)]\<rparr>)"
  using assms by (simp add: fetch_papers_def send_get_def response_json_def)

lemma fetch_papers_fetch_step:
  assumes "requests_get E PUBMED_SEARCH_URL (search_params q) = Some r" "status_code r = 200"
    "json_loads E (body r) = Some data" "idlist data = Inr ids" "truthy ids"
    "str_join '','' ids = Inr joined"
  shows "fetch_papers E q w =
    (let w2 = w\<lparr>sent := sent w @ [(PUBMED_SEARCH_URL, search_params q),
                                     (PUBMED_FETCH_URL, details_params joined)]\<rparr>
     in case requests_get E PUBMED_FETCH_URL (details_params joined) of
          None \<Rightarrow> (Inl RequestException, w2)
        | Some d \<Rightarrow>
            if status_code d \<noteq> 200
            then (Inr [], echo ''Error: Failed to fetch paper details.'' w2)
            else (case ET_fromstring E (body d) of
                    None \<Rightarrow> (Inl ParseError, w2)
                  | Some tree \<Rightarrow> (Inr (extract_papers tree), w2)))"
  using assms
  by (simp add: fetch_papers_def send_get_def response_json_def fromstring_def Let_def
      split: option.split)

text \<open>Which path a run takes, as one case distinction.\<close>

lemma fetch_papers_paths:
  obtains
    (search_raises) "requests_get E PUBMED_SEARCH_URL (search_params q) = None"
  | (search_status) r where "requests_get E PUBMED_SEARCH_URL (search_params q) = Some r"
      "status_code r \<noteq> 200"
  | (not_json) r where "requests_get E PUBMED_SEARCH_URL (search_params q) = Some r"
      "status_code r = 200" "json_loads E (body r) = None"
  | (idlist_raises) r data e where "requests_get E PUBMED_SEARCH_URL (search_params q) = Some r"
      "status_code r = 200" "json_loads E (body r) = Some data" "idlist data = Inl e"
  | (no_ids) r data ids where "requests_get E PUBMED_SEARCH_URL (search_params q) = Some r"
      "status_code r = 200" "json_loads E (body r) = Some data" "idlist data = Inr ids"
      "\<not> truthy ids"
  | (join_raises) r data ids e where "requests_get E PUBMED_SEARCH_URL (search_params q) = Some r"
      "status_code r = 200" "json_loads E (body r) = Some data" "idlist data = Inr ids"
      "truthy ids" "str_join '','' ids = Inl e"
  | (fetch_step) r data ids joined where "requests_get E PUBMED_SEARCH_URL (search_params q) = Some r"
      "status_code r = 200" "json_loads E (body r) = Some data" "idlist data = Inr ids"
      "truthy ids" "str_join '','' ids = Inr joined"
proof (cases "requests_get E PUBMED_SEARCH_URL (search_params q)")
  case None
  then show ?thesis by (rule search_raises)
next
  case (Some r)
  show ?thesis
  proof (cases "status_code r = 200")
    case False
    with Some show ?thesis by (rule search_status)
  next
    case True
    show ?thesis
    proof (cases "json_loads E (body r)")
      case None
      with Some True show ?thesis by (rule not_json)
    next
      case data: (Some data)
      show ?thesis
      proof (cases "idlist data")
        case (Inl e)
        with Some True data show ?thesis by (rule idlist_raises)
      next
        case ids: (Inr ids)
        show ?thesis
        proof (cases "truthy ids")
          case False
          with Some True data ids show ?thesis by (rule no_ids)
        next
          case t: True
          show ?thesis
          proof (cases "str_join '','' ids")
            case (Inl e)
            with Some True data ids t show ?thesis by (rule join_raises)
          next
            case (Inr joined)
            with Some True data ids t show ?thesis by (rule fetch_step)
          qed
        qed
      qed
    qed
  qed
qed

lemma fetch_response_fetch_step:
  assumes "requests_get E PUBMED_SEARCH_URL (search_params q) = Some r" "status_code r = 200"
    "json_loads E (body r) = Some data" "idlist data = Inr ids" "truthy ids"
    "str_join '','' ids = Inr joined"
  shows "fetch_response E q w = requests_get E PUBMED_FETCH_URL (details_params joined)"
  using assms
  by (simp add: fetch_response_def fetch_papers_fetch_step [OF assms] Let_def echo_def
      split: option.split)

lemma fetch_response_SomeE:
  assumes "fetch_response E q w = Some d"
  obtains r data ids joined where
    "requests_get E PUBMED_SEARCH_URL (search_params q) = Some r" "status_code r = 200"
    "json_loads E (body r) = Some data" "idlist data = Inr ids" "truthy ids"
    "str_join '','' ids = Inr joined"
    "requests_get E PUBMED_FETCH_URL (details_params joined) = Some d"
proof (cases rule: fetch_papers_paths [of E q])
  case search_raises
  from fetch_papers_search_raises [OF this, of w] assms show ?thesis
    by (simp add: fetch_response_def)
next
  case (search_status r)
  from fetch_papers_search_status [OF this, of w] assms show ?thesis
    by (simp add: fetch_response_def echo_def)
next
  case (not_json r)
  from fetch_papers_not_json [OF this, of w] assms show ?thesis
    by (simp add: fetch_response_def)
next
  case (idlist_raises r data e)
  from fetch_papers_idlist_raises [OF this, of w] assms show ?thesis
    by (simp add: fetch_response_def)
next
  case (no_ids r data ids)
  from fetch_papers_no_ids [OF this, of w] assms show ?thesis
    by (simp add: fetch_response_def echo_def)
next
  case (join_raises r data ids e)
  from fetch_papers_join_raises [OF this, of w] assms show ?thesis
    by (simp add: fetch_response_def)
next
  case (fetch_step r data ids joined)
  from fetch_response_fetch_step [OF this, of w] assms
  have "requests_get E PUBMED_FETCH_URL (details_params joined) = Some d" by simp
  with fetch_step show ?thesis by (rule that)
qed

lemma fetch_papers_fetched:
  assumes "fetch_response E q w = Some d"
  shows "fst (fetch_papers E q w) =
    (if status_code d \<noteq> 200 then Inr []
     else case ET_fromstring E (body d) of None \<Rightarrow> Inl ParseError
          | Some tree \<Rightarrow> Inr (extract_papers tree))"
    and "printed (snd (fetch_papers E q w)) =
    (if status_code d \<noteq> 200 then printed w @ [''Error: Failed to fetch paper details.'']
     else printed w)"
proof -
  from assms obtain r data ids joined where h:
    "requests_get E PUBMED_SEARCH_URL (search_params q) = Some r" "status_code r = 200"
    "json_loads E (body r) = Some data" "idlist data = Inr ids" "truthy ids"
    "str_join '','' ids = Inr joined"
    and d: "requests_get E PUBMED_FETCH_URL (details_params joined) = Some d"
    by (rule fetch_response_SomeE)
  show "fst (fetch_papers E q w) =
    (if status_code d \<noteq> 200 then Inr []
     else case ET_fromstring E (body d) of None \<Rightarrow> Inl ParseError
          | Some tree \<Rightarrow> Inr (extract_papers tree))"
    by (simp add: fetch_papers_fetch_step [OF h] d Let_def split: option.split)
  show "printed (snd (fetch_papers E q w)) =
    (if status_code d \<noteq> 200 then printed w @ [''Error: Failed to fetch paper details.'']
     else printed w)"
    by (simp add: fetch_papers_fetch_step [OF h] d Let_def echo_def split: option.split)
qed

lemma fetch_papers_not_fetched:
  assumes "fetch_response E q w = None"
  shows "fst (fetch_papers E q w) = Inr [] \<or> fst (fetch_papers E q w) = Inl RequestException
    \<or> fst (fetch_papers E q w) = Inl JSONDecodeError \<or> fst (fetch_papers E q w) = Inl AttributeError
    \<or> fst (fetch_papers E q w) = Inl TypeError"
proof (cases rule: fetch_papers_paths [of E q])
  case search_raises
  from fetch_papers_search_raises [OF this, of w] show ?thesis by simp
next
  case (search_status r)
  from fetch_papers_search_status [OF this, of w] show ?thesis by simp
next
  case (not_json r)
  from fetch_papers_not_json [OF this, of w] show ?thesis by simp
next
  case (idlist_raises r data e)
  have "e = AttributeError"
    using idlist_raises(4)
    by (cases data; cases "py_get data ''esearchresult'' (JObj [])")
       (auto simp: idlist_def split: sum.splits option.splits elim: py_get.elims)
  with fetch_papers_idlist_raises [OF idlist_raises, of w] show ?thesis by simp
next
  case (no_ids r data ids)
  from fetch_papers_no_ids [OF this, of w] show ?thesis by simp
next
  case (join_raises r data ids e)
  have "e = TypeError"
    using join_raises(6) by (cases ids) (auto split: option.splits)
  with fetch_papers_join_raises [OF join_raises, of w] show ?thesis by simp
next
  case (fetch_step r data ids joined)
  from fetch_response_fetch_step [OF this, of w] assms
  have "requests_get E PUBMED_FETCH_URL (details_params joined) = None" by simp
  with fetch_papers_fetch_step [OF fetch_step, of w] show ?thesis by (simp add: Let_def)
qed

lemma urls_differ: "PUBMED_FETCH_URL \<noteq> PUBMED_SEARCH_URL"
  by (simp add: PUBMED_FETCH_URL_def PUBMED_SEARCH_URL_def)

lemma canned_simps:
  "requests_get (canned r1 data r2 tree) PUBMED_SEARCH_URL ps = r1"
  "requests_get (canned r1 data r2 tree) PUBMED_FETCH_URL ps = r2"
  "json_loads (canned r1 data r2 tree) s = data"
  "ET_fromstring (canned r1 data r2 tree) s = tree"
  by (simp_all add: canned_def urls_differ)

lemma idlist_ids_found: "ids_found xs = Some data \<Longrightarrow> idlist data = Inr (JArr xs)"
  by (auto simp: ids_found_def idlist_def)

lemma canned_fetch_step:
  "fetch_papers (canned (reply 200) (ids_found [JStr i]) r2 tree) q w =
    (let w2 = w\<lparr>sent := sent w @ [(PUBMED_SEARCH_URL, search_params q),
                                     (PUBMED_FETCH_URL, details_params i)]\<rparr>
     in case r2 of
          None \<Rightarrow> (Inl RequestException, w2)
        | Some d \<Rightarrow>
            if status_code d \<noteq> 200
            then (Inr [], echo ''Error: Failed to fetch paper details.'' w2)
            else (case tree of
                    None \<Rightarrow> (Inl ParseError, w2)
                  | Some t \<Rightarrow> (Inr (extract_papers t), w2)))"
proof -
  let ?E = "canned (reply 200) (ids_found [JStr i]) r2 tree"
  obtain data where data: "ids_found [JStr i] = Some data"
    by (simp add: ids_found_def)
  have "requests_get ?E PUBMED_SEARCH_URL (search_params q) = Some \<lparr>status_code = 200, body = []\<rparr>"
    by (simp add: canned_simps reply_def)
  moreover have "status_code \<lparr>status_code = 200, body = []\<rparr> = 200" by simp
  moreover have "json_loads ?E (body \<lparr>status_code = 200, body = []\<rparr>) = Some data"
    by (simp add: canned_simps data)
  moreover have "idlist data = Inr (JArr [JStr i])" using data by (rule idlist_ids_found)
  moreover have "truthy (JArr [JStr i])" by simp
  moreover have "str_join '','' (JArr [JStr i]) = Inr i" by simp
  ultimately show ?thesis
    by (simp add: fetch_papers_fetch_step canned_simps Let_def split: option.split)
qed

lemma canned_fetch_response:
  "fetch_response (canned (reply 200) (ids_found [JStr i]) r2 tree) q w = r2"
  by (simp add: fetch_response_def canned_fetch_step Let_def echo_def canned_simps
      split: option.split)

lemma canned_result:
  "fst (fetch_papers (canned (reply 200) (ids_found [JStr i]) (reply 200) (Some t)) q w) =
     Inr (extract_papers t)"
  unfolding canned_fetch_step by (simp add: reply_def)

lemma below_article_set: "below (article_set as) = concat (map preorder as)"
  by (simp add: below_def article_set_def)

lemma paper_of_example:
  "paper_of example_article = example_record"
  by (simp add: paper_of_def find_first_def findall_def iterfind_def example_article_def
      example_record_def)

lemma paper_of_blank:
  "paper_of blank_article = blank_record"
  by (simp add: paper_of_def find_first_def findall_def iterfind_def blank_article_def
      blank_record_def)

lemma paper_of_authors:
  "paper_of authors_article =
     [(''PubmedID'', Some ''N/A''), (''Title'', Some ''N/A''),
      (''Authors'', Some ''Jane Smith, John Roe''), (''Abstract'', Some ''N/A'')]"
  by (simp add: paper_of_def find_first_def findall_def iterfind_def authors_article_def
      lone_author_def)

lemma paper_of_nameless:
  "paper_of nameless_article =
     [(''PubmedID'', Some ''N/A''), (''Title'', Some ''N/A''),
      (''Authors'', Some ''None None''), (''Abstract'', Some ''N/A'')]"
  by (simp add: paper_of_def find_first_def findall_def iterfind_def nameless_article_def
      nameless_author_def)

lemma articles_of_samples:
  "filter (\<lambda>x. tag x = ''PubmedArticle'') (preorder example_article) = [example_article]"
  "filter (\<lambda>x. tag x = ''PubmedArticle'') (preorder blank_article) = [blank_article]"
  "filter (\<lambda>x. tag x = ''PubmedArticle'') (preorder authors_article) = [authors_article]"
  by (simp_all add: example_article_def blank_article_def authors_article_def lone_author_def)

lemma sub_nodes_article_set:
  "sub_nodes t (article_set as) = concat (map (\<lambda>a. filter (\<lambda>x. tag x = t) (preorder a)) as)"
  by (simp add: sub_nodes_def below_article_set filter_concat comp_def)

lemma fetch_papers_result:
  assumes "fst (fetch_papers E q w) = Inr ps"
  shows "ps = [] \<or> (\<exists>d tree. fetch_response E q w = Some d \<and> status_code d = 200 \<and>
            ET_fromstring E (body d) = Some tree \<and> ps = extract_papers tree)"
proof (cases "fetch_response E q w")
  case None
  from fetch_papers_not_fetched [OF this] assms show ?thesis by auto
next
  case (Some d)
  from fetch_papers_fetched(1) [OF this] assms show ?thesis
    using Some by (auto split: if_splits option.splits)
qed

lemma first_of_list:
  "(case (case xs of [] \<Rightarrow> None | e # _ \<Rightarrow> Some e) of Some e \<Rightarrow> text_of e | None \<Rightarrow> Some d) =
   (case xs of [] \<Rightarrow> Some d | e # _ \<Rightarrow> text_of e)"
  by (cases xs) simp_all

lemma find_first_abstract:
  "find_first e [Self, Descendant ''Abstract'', Child ''AbstractText''] =
     (case concat (map (child_nodes ''AbstractText'') (sub_nodes ''Abstract'' e)) of
        [] \<Rightarrow> None | y # _ \<Rightarrow> Some y)"
proof -
  have "child_nodes ''AbstractText'' = (\<lambda>a. filter (\<lambda>x. tag x = ''AbstractText'') (children a))"
    by (rule ext) (simp add: child_nodes_def)
  then show ?thesis
    by (simp add: find_first_def iterfind_def descendants_below sub_nodes_def)
qed

lemma paper_of_fields:
  "paper_of article =
     [(''PubmedID'', case sub_nodes ''PMID'' article of [] \<Rightarrow> Some ''N/A'' | e # _ \<Rightarrow> text_of e),
      (''Title'', case sub_nodes ''ArticleTitle'' article of [] \<Rightarrow> Some ''N/A'' | e # _ \<Rightarrow> text_of e),
      (''Authors'', Some (if authors_loop (sub_nodes ''Author'' article) [] \<noteq> []
                          then join '', '' (authors_loop (sub_nodes ''Author'' article) [])
                          else ''N/A'')),
      (''Abstract'', case concat (map (child_nodes ''AbstractText'') (sub_nodes ''Abstract'' article)) of
                       [] \<Rightarrow> Some ''N/A'' | e # _ \<Rightarrow> text_of e)]"
  unfolding paper_of_def Let_def find_first_abstract find_first_descendant findall_descendant
    first_of_list sub_nodes_def
  by simp

lemma authors_loop_step: "authors_loop (a # rest) acc = authors_loop rest (acc @ name_pair a)"
  by (simp add: find_first_child child_nodes_def name_pair_def Let_def split: list.split)

lemma authors_loop_pairs: "authors_loop as acc = acc @ concat (map name_pair as)"
proof (induction as arbitrary: acc)
  case Nil
  show ?case by simp
next
  case (Cons a as)
  show ?case
    unfolding authors_loop_step Cons.IH by simp
qed

lemma authors_field: "map_of (paper_of article) ''Authors'' = Some (Some (authors_spec article))"
  by (simp add: paper_of_fields authors_loop_pairs authors_spec_def Let_def)





lemma paper_of_spec:
  "paper_of article =
     [(''PubmedID'', case sub_nodes ''PMID'' article of [] \<Rightarrow> Some ''N/A'' | e # _ \<Rightarrow> text_of e),
      (''Title'', case sub_nodes ''ArticleTitle'' article of [] \<Rightarrow> Some ''N/A'' | e # _ \<Rightarrow> text_of e),
      (''Authors'', Some (authors_spec article)),
      (''Abstract'', case concat (map (child_nodes ''AbstractText'') (sub_nodes ''Abstract'' article)) of
                       [] \<Rightarrow> Some ''N/A'' | e # _ \<Rightarrow> text_of e)]"
  by (simp add: paper_of_fields authors_loop_pairs authors_spec_def Let_def)

section \<open>The properties\<close>

lemma extract_papers_sub_nodes:
  "extract_papers tree = map paper_of (sub_nodes ''PubmedArticle'' tree)"
  by (simp add: extract_papers_eq sub_nodes_def)

text \<open>
  C1, as the code has it. When the fetch response has status 200 and parses to a document,
  the result holds, for each \<^verbatim>\<open>PubmedArticle\<close> node below the root and in that order, the
  record of that node: the four keys in order, \<^verbatim>\<open>Authors\<close> always a string, \<^verbatim>\<open>PubmedID\<close>
  and \<^verbatim>\<open>Title\<close> equal to \<^verbatim>\<open>N/A\<close> when the node has no \<^verbatim>\<open>PMID\<close> or \<^verbatim>\<open>ArticleTitle\<close>
  sub-node and otherwise to the \<^verbatim>\<open>.text\<close> of the first one in document order, and
  \<^verbatim>\<open>Abstract\<close> equal to \<^verbatim>\<open>N/A\<close> when no \<^verbatim>\<open>Abstract\<close> sub-node has an \<^verbatim>\<open>AbstractText\<close>
  child and otherwise to the \<^verbatim>\<open>.text\<close> of the first \<^verbatim>\<open>AbstractText\<close> child of the first
  \<^verbatim>\<open>Abstract\<close> sub-node, in document order, that has one. Such a \<^verbatim>\<open>.text\<close> is \<^verbatim>\<open>None\<close>
  when the element has no text: presence of the element is what is tested. Every
  non-empty result arises this way.
\<close>

theorem fetch_papers_fields:
  "(fetch_response E q w = Some d \<and> status_code d = 200 \<and> ET_fromstring E (body d) = Some tree \<longrightarrow>
      fst (fetch_papers E q w) =
        Inr (map (\<lambda>article.
               [(''PubmedID'', case sub_nodes ''PMID'' article of
                                 [] \<Rightarrow> Some ''N/A'' | e # _ \<Rightarrow> text_of e),
                (''Title'', case sub_nodes ''ArticleTitle'' article of
                              [] \<Rightarrow> Some ''N/A'' | e # _ \<Rightarrow> text_of e),
                (''Authors'', Some (authors_spec article)),
                (''Abstract'', case concat (map (child_nodes ''AbstractText'')
                                                (sub_nodes ''Abstract'' article)) of
                                 [] \<Rightarrow> Some ''N/A'' | e # _ \<Rightarrow> text_of e)])
             (sub_nodes ''PubmedArticle'' tree))) \<and>
   (fst (fetch_papers E q w) = Inr ps \<and> ps \<noteq> [] \<longrightarrow>
      (\<exists>d tree. fetch_response E q w = Some d \<and> status_code d = 200 \<and>
                ET_fromstring E (body d) = Some tree))"
proof (intro conjI impI)
  assume "fetch_response E q w = Some d \<and> status_code d = 200 \<and>
    ET_fromstring E (body d) = Some tree"
  then have h: "fetch_response E q w = Some d" and s: "status_code d = 200"
    "ET_fromstring E (body d) = Some tree" by simp_all
  have "fst (fetch_papers E q w) = Inr (map paper_of (sub_nodes ''PubmedArticle'' tree))"
    using fetch_papers_fetched(1) [OF h] s by (simp add: extract_papers_sub_nodes)
  also have "paper_of = (\<lambda>article.
               [(''PubmedID'', case sub_nodes ''PMID'' article of
                                 [] \<Rightarrow> Some ''N/A'' | e # _ \<Rightarrow> text_of e),
                (''Title'', case sub_nodes ''ArticleTitle'' article of
                              [] \<Rightarrow> Some ''N/A'' | e # _ \<Rightarrow> text_of e),
                (''Authors'', Some (authors_spec article)),
                (''Abstract'', case concat (map (child_nodes ''AbstractText'')
                                                (sub_nodes ''Abstract'' article)) of
                                 [] \<Rightarrow> Some ''N/A'' | e # _ \<Rightarrow> text_of e)])"
    by (rule ext) (rule paper_of_spec)
  finally show "fst (fetch_papers E q w) =
        Inr (map (\<lambda>article.
               [(''PubmedID'', case sub_nodes ''PMID'' article of
                                 [] \<Rightarrow> Some ''N/A'' | e # _ \<Rightarrow> text_of e),
                (''Title'', case sub_nodes ''ArticleTitle'' article of
                              [] \<Rightarrow> Some ''N/A'' | e # _ \<Rightarrow> text_of e),
                (''Authors'', Some (authors_spec article)),
                (''Abstract'', case concat (map (child_nodes ''AbstractText'')
                                                (sub_nodes ''Abstract'' article)) of
                                 [] \<Rightarrow> Some ''N/A'' | e # _ \<Rightarrow> text_of e)])
             (sub_nodes ''PubmedArticle'' tree))" .
next
  assume "fst (fetch_papers E q w) = Inr ps \<and> ps \<noteq> []"
  then have r: "fst (fetch_papers E q w) = Inr ps" and n: "ps \<noteq> []" by simp_all
  from fetch_papers_result [OF r] n
  show "\<exists>d tree. fetch_response E q w = Some d \<and> status_code d = 200 \<and>
                ET_fromstring E (body d) = Some tree" by blast
qed

theorem fetch_papers_fields_witness:
  "fetch_response (canned (reply 200) (ids_found [JStr ''12345'']) (reply 200)
      (Some (article_set [blank_article, example_article, nested_article]))) ''cancer'' fresh =
     Some \<lparr>status_code = 200, body = []\<rparr> \<and>
   fst (fetch_papers (canned (reply 200) (ids_found [JStr ''12345'']) (reply 200)
      (Some (article_set [blank_article, example_article, nested_article]))) ''cancer'' fresh) =
     Inr [[(''PubmedID'', None), (''Title'', Some ''N/A''), (''Authors'', Some ''N/A''),
           (''Abstract'', Some ''N/A'')],
          [(''PubmedID'', Some ''12345''), (''Title'', Some ''Example Study''),
           (''Authors'', Some ''Jane Smith''), (''Abstract'', Some ''An example abstract.'')],
          [(''PubmedID'', Some ''N/A''), (''Title'', Some ''N/A''), (''Authors'', Some ''N/A''),
           (''Abstract'', Some ''outer'')]]"
proof -
  let ?t = "article_set [blank_article, example_article, nested_article]"
  let ?E = "canned (reply 200) (ids_found [JStr ''12345'']) (reply 200) (Some ?t)"
  let ?d = "\<lparr>status_code = 200, body = []\<rparr>"
  have a: "fetch_response ?E ''cancer'' fresh = Some ?d \<and> status_code ?d = 200 \<and>
      ET_fromstring ?E (body ?d) = Some ?t"
    unfolding canned_fetch_response by (simp add: reply_def canned_simps)
  have n: "sub_nodes ''PubmedArticle'' ?t = [blank_article, example_article, nested_article]"
    by (simp add: sub_nodes_article_set articles_of_samples nested_article_def)
  have b: "sub_nodes ''PMID'' blank_article = [Element ''PMID'' None []]"
    "sub_nodes ''ArticleTitle'' blank_article = []"
    "sub_nodes ''Abstract'' blank_article = []"
    "authors_spec blank_article = ''N/A''"
    by (simp_all add: sub_nodes_def below_def blank_article_def authors_spec_def)
  have e: "sub_nodes ''PMID'' example_article = [Element ''PMID'' (Some ''12345'') []]"
    "sub_nodes ''ArticleTitle'' example_article = [Element ''ArticleTitle'' (Some ''Example Study'') []]"
    "concat (map (child_nodes ''AbstractText'') (sub_nodes ''Abstract'' example_article)) =
       [Element ''AbstractText'' (Some ''An example abstract.'') []]"
    "authors_spec example_article = ''Jane Smith''"
    by (simp_all add: sub_nodes_def below_def example_article_def authors_spec_def
        child_nodes_def name_pair_def)
  have c: "sub_nodes ''PMID'' nested_article = []"
    "sub_nodes ''ArticleTitle'' nested_article = []"
    "concat (map (child_nodes ''AbstractText'') (sub_nodes ''Abstract'' nested_article)) =
       [Element ''AbstractText'' (Some ''outer'') [], Element ''AbstractText'' (Some ''inner'') []]"
    "authors_spec nested_article = ''N/A''"
    by (simp_all add: sub_nodes_def below_def nested_article_def authors_spec_def
        child_nodes_def name_pair_def)
  from fetch_papers_fields [of ?E "''cancer''" fresh ?d ?t, THEN conjunct1, THEN mp, OF a]
  have "fst (fetch_papers ?E ''cancer'' fresh) =
     Inr [[(''PubmedID'', None), (''Title'', Some ''N/A''), (''Authors'', Some ''N/A''),
           (''Abstract'', Some ''N/A'')],
          [(''PubmedID'', Some ''12345''), (''Title'', Some ''Example Study''),
           (''Authors'', Some ''Jane Smith''), (''Abstract'', Some ''An example abstract.'')],
          [(''PubmedID'', Some ''N/A''), (''Title'', Some ''N/A''), (''Authors'', Some ''N/A''),
           (''Abstract'', Some ''outer'')]]"
    unfolding n by (simp add: b e c)
  with a show ?thesis by simp
qed

text \<open>An article whose \<^verbatim>\<open>PMID\<close> element is empty gets the identifier \<^verbatim>\<open>None\<close>.\<close>

theorem empty_text_gives_none:
  "fst (fetch_papers (canned (reply 200) (ids_found [JStr ''12345'']) (reply 200)
          (Some (article_set [blank_article]))) ''cancer'' fresh) =
     Inr [[(''PubmedID'', None), (''Title'', Some ''N/A''), (''Authors'', Some ''N/A''),
           (''Abstract'', Some ''N/A'')]]"
  by (simp add: canned_result extract_papers_sub_nodes sub_nodes_article_set
      articles_of_samples paper_of_blank blank_record_def)


text \<open>
  C3. When the answer to the search request, or the answer to the fetch request of the
  run, has a status other than 200, \<^verbatim>\<open>fetch_papers\<close> returns the empty list.
\<close>

theorem non_success_status_empty:
  assumes "requests_get E PUBMED_SEARCH_URL (search_params q) = Some r \<or>
           fetch_response E q w = Some r"
    and "status_code r \<noteq> 200"
  shows "fst (fetch_papers E q w) = Inr []"
  using assms(1)
proof
  assume "requests_get E PUBMED_SEARCH_URL (search_params q) = Some r"
  from fetch_papers_search_status [OF this assms(2)] show ?thesis by simp
next
  assume "fetch_response E q w = Some r"
  from fetch_papers_fetched(1) [OF this] assms(2) show ?thesis by simp
qed

theorem non_success_status_empty_witness:
  "requests_get (canned (reply 500) None None None) PUBMED_SEARCH_URL (search_params ''cancer'')
     = Some \<lparr>status_code = 500, body = []\<rparr> \<and>
   fst (fetch_papers (canned (reply 500) None None None) ''cancer'' fresh) = Inr [] \<and>
   fetch_response (canned (reply 200) (ids_found [JStr ''12345'']) (reply 404) None) ''cancer'' fresh
     = Some \<lparr>status_code = 404, body = []\<rparr> \<and>
   fst (fetch_papers (canned (reply 200) (ids_found [JStr ''12345'']) (reply 404) None)
     ''cancer'' fresh) = Inr []"
proof -
  have s: "requests_get (canned (reply 500) None None None) PUBMED_SEARCH_URL
      (search_params ''cancer'') = Some \<lparr>status_code = 500, body = []\<rparr>"
    by (simp add: canned_simps reply_def)
  have f: "fetch_response (canned (reply 200) (ids_found [JStr ''12345'']) (reply 404) None)
      ''cancer'' fresh = Some \<lparr>status_code = 404, body = []\<rparr>"
    unfolding canned_fetch_response by (simp add: reply_def)
  have "fst (fetch_papers (canned (reply 500) None None None) ''cancer'' fresh) = Inr []"
    using non_success_status_empty [OF disjI1, OF s, of fresh] by simp
  moreover
  have "fst (fetch_papers (canned (reply 200) (ids_found [JStr ''12345'']) (reply 404) None)
     ''cancer'' fresh) = Inr []"
    using non_success_status_empty [OF disjI2, OF f] by simp
  ultimately show ?thesis using s f by simp
qed

text \<open>
  C4. When the search answer decodes to an empty identifier list, \<^verbatim>\<open>fetch_papers\<close>
  returns the empty list and the search request is the only request the run sends.
\<close>

theorem empty_idlist_no_fetch:
  assumes "requests_get E PUBMED_SEARCH_URL (search_params q) = Some r"
    and "status_code r = 200"
    and "json_loads E (body r) = Some data"
    and "idlist data = Inr (JArr [])"
  shows "fst (fetch_papers E q w) = Inr [] \<and>
    requests_of E q w = [(PUBMED_SEARCH_URL, search_params q)]"
proof -
  have "\<not> truthy (JArr [])" by simp
  from fetch_papers_no_ids [OF assms this, of w] show ?thesis
    by (simp add: requests_of_def echo_def)
qed

theorem empty_idlist_no_fetch_witness:
  "idlist (JObj [(''esearchresult'', JObj [(''idlist'', JArr [])])]) = Inr (JArr []) \<and>
   fst (fetch_papers (canned (reply 200) (ids_found []) (reply 200)
          (Some (article_set [example_article]))) ''cancer'' fresh) = Inr [] \<and>
   requests_of (canned (reply 200) (ids_found []) (reply 200)
          (Some (article_set [example_article]))) ''cancer'' fresh =
     [(PUBMED_SEARCH_URL, search_params ''cancer'')]"
proof -
  let ?E = "canned (reply 200) (ids_found []) (reply 200) (Some (article_set [example_article]))"
  have a: "requests_get ?E PUBMED_SEARCH_URL (search_params ''cancer'') =
      Some \<lparr>status_code = 200, body = []\<rparr>"
    by (simp add: canned_simps reply_def)
  have b: "status_code \<lparr>status_code = 200, body = []\<rparr> = 200" by simp
  have c: "json_loads ?E (body \<lparr>status_code = 200, body = []\<rparr>) =
      Some (JObj [(''esearchresult'', JObj [(''idlist'', JArr [])])])"
    by (simp add: canned_simps ids_found_def)
  have d: "idlist (JObj [(''esearchresult'', JObj [(''idlist'', JArr [])])]) = Inr (JArr [])"
    by (simp add: idlist_def)
  from empty_idlist_no_fetch [OF a b c d, of fresh] d show ?thesis by simp
qed

text \<open>
  C5, as the code has it. When the fetch response has status 200 and parses to a document,
  the result is one record for each \<^verbatim>\<open>PubmedArticle\<close> node strictly below the root of the
  document, at any depth, in document order, duplicates kept. The root element itself is
  never a record node.
\<close>

theorem records_in_document_order:
  assumes "fetch_response E q w = Some d"
    and "status_code d = 200"
    and "ET_fromstring E (body d) = Some tree"
  shows "fst (fetch_papers E q w) = Inr (map paper_of (sub_nodes ''PubmedArticle'' tree))"
  using fetch_papers_fetched(1) [OF assms(1)] assms(2,3)
  by (simp add: extract_papers_sub_nodes)

theorem records_in_document_order_witness:
  "fetch_response (canned (reply 200) (ids_found [JStr ''12345'']) (reply 200)
      (Some (article_set [blank_article, example_article, blank_article]))) ''cancer'' fresh =
     Some \<lparr>status_code = 200, body = []\<rparr> \<and>
   sub_nodes ''PubmedArticle'' (article_set [blank_article, example_article, blank_article]) =
     [blank_article, example_article, blank_article] \<and>
   fst (fetch_papers (canned (reply 200) (ids_found [JStr ''12345'']) (reply 200)
      (Some (article_set [blank_article, example_article, blank_article]))) ''cancer'' fresh) =
     Inr [blank_record, example_record, blank_record]"
proof -
  let ?t = "article_set [blank_article, example_article, blank_article]"
  let ?E = "canned (reply 200) (ids_found [JStr ''12345'']) (reply 200) (Some ?t)"
  have a: "fetch_response ?E ''cancer'' fresh = Some \<lparr>status_code = 200, body = []\<rparr>"
    unfolding canned_fetch_response by (simp add: reply_def)
  have b: "status_code \<lparr>status_code = 200, body = []\<rparr> = 200" by simp
  have c: "ET_fromstring ?E (body \<lparr>status_code = 200, body = []\<rparr>) = Some ?t"
    by (simp add: canned_simps)
  have n: "sub_nodes ''PubmedArticle'' ?t = [blank_article, example_article, blank_article]"
    by (simp add: sub_nodes_article_set articles_of_samples)
  from records_in_document_order [OF a b c] a n show ?thesis
    by (simp add: paper_of_example paper_of_blank)
qed

text \<open>A document whose root is the only \<^verbatim>\<open>PubmedArticle\<close> node gives no record.\<close>

theorem root_article_not_extracted:
  "iter ''PubmedArticle'' example_article = [example_article] \<and>
   fst (fetch_papers (canned (reply 200) (ids_found [JStr ''12345'']) (reply 200)
      (Some example_article)) ''cancer'' fresh) = Inr []"
proof -
  have "sub_nodes ''PubmedArticle'' example_article = []"
    by (simp add: sub_nodes_def below_def example_article_def)
  then show ?thesis
    by (simp add: canned_result extract_papers_sub_nodes iter_preorder articles_of_samples)
qed

text \<open>
  C6. The \<^verbatim>\<open>Authors\<close> value of a record is the authors field of the specification:
  the pairs of all \<^verbatim>\<open>Author\<close> sub-nodes joined with a comma and a space, or \<^verbatim>\<open>N/A\<close> when
  there is no pair. In the loop, an \<^verbatim>\<open>Author\<close> node without a \<^verbatim>\<open>ForeName\<close> child leaves
  the list as it is, and one with both children appends the fore name, a space and the
  last name.
\<close>

theorem authors_field_rule:
  "map_of (paper_of article) ''Authors'' = Some (Some (authors_spec article)) \<and>
   (child_nodes ''ForeName'' a = [] \<longrightarrow> authors_loop (a # rest) acc = authors_loop rest acc) \<and>
   (\<forall>f fs l ls. child_nodes ''ForeName'' a = f # fs \<and> child_nodes ''LastName'' a = l # ls \<longrightarrow>
      authors_loop (a # rest) acc =
        authors_loop rest (acc @ [format_text (text_of f) @ '' '' @ format_text (text_of l)]))"
  unfolding authors_loop_step by (simp add: authors_field name_pair_def)

theorem authors_field_rule_witness:
  "map_of (paper_of authors_article) ''Authors'' = Some (Some ''Jane Smith, John Roe'') \<and>
   authors_spec authors_article = ''Jane Smith, John Roe'' \<and>
   child_nodes ''ForeName'' lone_author = [] \<and>
   authors_loop [lone_author] [] = [] \<and>
   authors_loop [Element ''Author'' None
       [Element ''LastName'' (Some ''Smith'') [], Element ''ForeName'' (Some ''Jane'') []]] [] =
     [''Jane Smith'']"
proof -
  let ?jane = "Element ''Author'' None
       [Element ''LastName'' (Some ''Smith'') [], Element ''ForeName'' (Some ''Jane'') []]"
  have lone: "child_nodes ''ForeName'' lone_author = []"
    by (simp add: child_nodes_def lone_author_def)
  have jane: "child_nodes ''ForeName'' ?jane = Element ''ForeName'' (Some ''Jane'') [] # []"
    "child_nodes ''LastName'' ?jane = Element ''LastName'' (Some ''Smith'') [] # []"
    by (simp_all add: child_nodes_def)
  have field: "map_of (paper_of authors_article) ''Authors'' = Some (Some ''Jane Smith, John Roe'')"
    by (simp add: paper_of_authors)
  from authors_field_rule [of authors_article lone_author "[]" "[]"] lone field
  have 1: "authors_spec authors_article = ''Jane Smith, John Roe''"
    and 2: "authors_loop [lone_author] [] = []"
    by (simp_all del: authors_loop.simps add: authors_loop.simps(1))
  from authors_field_rule [of authors_article ?jane "[]" "[]"] jane
  have 3: "authors_loop [?jane] [] = [''Jane Smith'']"
    by (simp del: authors_loop.simps add: authors_loop.simps(1))
  from field 1 lone 2 3 show ?thesis by simp
qed

lemma name_pairs_present:
  "concat (map name_pair authors) =
     map (\<lambda>a. format_text (text_of (hd (child_nodes ''ForeName'' a))) @ '' '' @
               format_text (text_of (hd (child_nodes ''LastName'' a))))
       (filter (\<lambda>a. child_nodes ''LastName'' a \<noteq> [] \<and> child_nodes ''ForeName'' a \<noteq> []) authors)"
  by (induction authors) (auto simp: name_pair_def split: list.splits)

text \<open>
  C10. Which \<^verbatim>\<open>Author\<close> nodes contribute a pair is decided by the presence of a
  \<^verbatim>\<open>LastName\<close> and a \<^verbatim>\<open>ForeName\<close> child alone; the pair is formatted from the \<^verbatim>\<open>.text\<close>
  of the first of each, so that elements without text give the pair \<^verbatim>\<open>None None\<close>: the
  node is neither skipped nor replaced by \<^verbatim>\<open>N/A\<close>.
\<close>

theorem author_presence_only:
  "authors_loop authors [] =
     map (\<lambda>a. format_text (text_of (hd (child_nodes ''ForeName'' a))) @ '' '' @
               format_text (text_of (hd (child_nodes ''LastName'' a))))
       (filter (\<lambda>a. child_nodes ''LastName'' a \<noteq> [] \<and> child_nodes ''ForeName'' a \<noteq> []) authors) \<and>
   ((\<forall>a\<in>set authors. \<forall>c\<in>set (children a). text_of c = None) \<longrightarrow>
      authors_loop authors [] =
        replicate (length (filter (\<lambda>a. child_nodes ''LastName'' a \<noteq> [] \<and>
                                       child_nodes ''ForeName'' a \<noteq> []) authors)) ''None None'')"
proof (intro conjI impI)
  let ?both = "\<lambda>a. child_nodes ''LastName'' a \<noteq> [] \<and> child_nodes ''ForeName'' a \<noteq> []"
  let ?pair = "\<lambda>a. format_text (text_of (hd (child_nodes ''ForeName'' a))) @ '' '' @
               format_text (text_of (hd (child_nodes ''LastName'' a)))"
  show eq: "authors_loop authors [] = map ?pair (filter ?both authors)"
    by (simp add: authors_loop_pairs name_pairs_present)
  assume empty: "\<forall>a\<in>set authors. \<forall>c\<in>set (children a). text_of c = None"
  have "?pair a = ''None None''" if "a \<in> set (filter ?both authors)" for a
  proof -
    from that have a: "a \<in> set authors" and l: "child_nodes ''LastName'' a \<noteq> []"
      and f: "child_nodes ''ForeName'' a \<noteq> []" by simp_all
    from l have "hd (child_nodes ''LastName'' a) \<in> set (child_nodes ''LastName'' a)" by simp
    then have "hd (child_nodes ''LastName'' a) \<in> set (children a)"
      by (simp add: child_nodes_def)
    with empty a have tl: "text_of (hd (child_nodes ''LastName'' a)) = None" by blast
    from f have "hd (child_nodes ''ForeName'' a) \<in> set (child_nodes ''ForeName'' a)" by simp
    then have "hd (child_nodes ''ForeName'' a) \<in> set (children a)"
      by (simp add: child_nodes_def)
    with empty a have "text_of (hd (child_nodes ''ForeName'' a)) = None" by blast
    with tl show ?thesis by simp
  qed
  then have "map ?pair (filter ?both authors) = map (\<lambda>_. ''None None'') (filter ?both authors)"
    by (intro map_cong refl)
  with eq show "authors_loop authors [] = replicate (length (filter ?both authors)) ''None None''"
    by (simp add: map_replicate_const)
qed

theorem author_presence_only_witness:
  "authors_loop [nameless_author] [] = [''None None''] \<and>
   map_of (paper_of nameless_article) ''Authors'' = Some (Some ''None None'')"
proof -
  have empty: "\<forall>a\<in>set [nameless_author]. \<forall>c\<in>set (children a). text_of c = None"
    by (simp add: nameless_author_def)
  have both: "filter (\<lambda>a. child_nodes ''LastName'' a \<noteq> [] \<and> child_nodes ''ForeName'' a \<noteq> [])
      [nameless_author] = [nameless_author]"
    by (simp add: nameless_author_def child_nodes_def)
  from author_presence_only [of "[nameless_author]", THEN conjunct2, THEN mp, OF empty]
  have "authors_loop [nameless_author] [] = [''None None'']"
    unfolding both by simp
  then show ?thesis by (simp add: paper_of_nameless)
qed

text \<open>
  C8, as the code has it. \<^verbatim>\<open>fetch_papers\<close> raises \<^verbatim>\<open>ParseError\<close>, uncaught, exactly when the
  fetch response has status 200 and a body the XML parser rejects. It is not the only
  exception that leaves the function: the transport, the JSON decoder and the reading of
  the identifier list raise as well.
\<close>

theorem parse_failure_propagates:
  "(fst (fetch_papers E q w) = Inl ParseError) =
   (\<exists>d. fetch_response E q w = Some d \<and> status_code d = 200 \<and> ET_fromstring E (body d) = None)"
proof (cases "fetch_response E q w")
  case None
  from fetch_papers_not_fetched [OF this] None show ?thesis by auto
next
  case (Some d)
  from fetch_papers_fetched(1) [OF this] Some show ?thesis
    by (auto split: option.splits)
qed

theorem parse_failure_propagates_witness:
  "fetch_response (canned (reply 200) (ids_found [JStr ''12345'']) (reply 200) None)
      ''cancer'' fresh = Some \<lparr>status_code = 200, body = []\<rparr> \<and>
   fst (fetch_papers (canned (reply 200) (ids_found [JStr ''12345'']) (reply 200) None)
      ''cancer'' fresh) = Inl ParseError"
proof -
  let ?E = "canned (reply 200) (ids_found [JStr ''12345'']) (reply 200) None"
  have a: "fetch_response ?E ''cancer'' fresh = Some \<lparr>status_code = 200, body = []\<rparr>"
    unfolding canned_fetch_response by (simp add: reply_def)
  then have "\<exists>d. fetch_response ?E ''cancer'' fresh = Some d \<and> status_code d = 200 \<and>
      ET_fromstring ?E (body d) = None"
    by (simp add: canned_simps)
  with parse_failure_propagates [of ?E "''cancer''" fresh] a show ?thesis by simp
qed

text \<open>A search answer with status 200 that is not JSON raises \<^verbatim>\<open>JSONDecodeError\<close>.\<close>

theorem not_json_raises:
  "fst (fetch_papers (canned (reply 200) None None None) ''cancer'' fresh) = Inl JSONDecodeError"
proof -
  have "requests_get (canned (reply 200) None None None) PUBMED_SEARCH_URL (search_params ''cancer'')
      = Some \<lparr>status_code = 200, body = []\<rparr>"
    by (simp add: canned_simps reply_def)
  from fetch_papers_not_json [OF this] show ?thesis by (simp add: canned_simps)
qed

text \<open>
  C9, as the code has it. A status other than 200 at either step and an empty identifier
  list each return the empty list and print exactly one line, which is not part of the
  result. An empty article set returns the empty list as well, and \<^verbatim>\<open>fetch_papers\<close>
  prints nothing for it.
\<close>

theorem failure_messages:
  "(requests_get E PUBMED_SEARCH_URL (search_params q) = Some r \<and> status_code r \<noteq> 200 \<longrightarrow>
      fst (fetch_papers E q w) = Inr [] \<and>
      messages_of E q w = [''Error: Failed to fetch data from PubMed.'']) \<and>
   (fetch_response E q w = Some r \<and> status_code r \<noteq> 200 \<longrightarrow>
      fst (fetch_papers E q w) = Inr [] \<and>
      messages_of E q w = [''Error: Failed to fetch paper details.'']) \<and>
   (requests_get E PUBMED_SEARCH_URL (search_params q) = Some r \<and> status_code r = 200 \<and>
    json_loads E (body r) = Some data \<and> idlist data = Inr (JArr []) \<longrightarrow>
      fst (fetch_papers E q w) = Inr [] \<and>
      messages_of E q w = [''No papers found for the given query.'']) \<and>
   (fetch_response E q w = Some r \<and> status_code r = 200 \<and>
    ET_fromstring E (body r) = Some tree \<and> sub_nodes ''PubmedArticle'' tree = [] \<longrightarrow>
      fst (fetch_papers E q w) = Inr [] \<and> messages_of E q w = [])"
proof (intro conjI impI)
  assume "requests_get E PUBMED_SEARCH_URL (search_params q) = Some r \<and> status_code r \<noteq> 200"
  then have h: "requests_get E PUBMED_SEARCH_URL (search_params q) = Some r" "status_code r \<noteq> 200"
    by simp_all
  from fetch_papers_search_status [OF h, of w]
  show "fst (fetch_papers E q w) = Inr []"
    and "messages_of E q w = [''Error: Failed to fetch data from PubMed.'']"
    by (simp_all add: messages_of_def echo_def)
next
  assume "fetch_response E q w = Some r \<and> status_code r \<noteq> 200"
  then have h: "fetch_response E q w = Some r" and s: "status_code r \<noteq> 200" by simp_all
  from fetch_papers_fetched [OF h] s
  show "fst (fetch_papers E q w) = Inr []"
    and "messages_of E q w = [''Error: Failed to fetch paper details.'']"
    by (simp_all add: messages_of_def)
next
  assume "requests_get E PUBMED_SEARCH_URL (search_params q) = Some r \<and> status_code r = 200 \<and>
    json_loads E (body r) = Some data \<and> idlist data = Inr (JArr [])"
  then have h: "requests_get E PUBMED_SEARCH_URL (search_params q) = Some r" "status_code r = 200"
    "json_loads E (body r) = Some data" "idlist data = Inr (JArr [])" "\<not> truthy (JArr [])"
    by simp_all
  from fetch_papers_no_ids [OF h, of w]
  show "fst (fetch_papers E q w) = Inr []"
    and "messages_of E q w = [''No papers found for the given query.'']"
    by (simp_all add: messages_of_def echo_def)
next
  assume "fetch_response E q w = Some r \<and> status_code r = 200 \<and>
    ET_fromstring E (body r) = Some tree \<and> sub_nodes ''PubmedArticle'' tree = []"
  then have h: "fetch_response E q w = Some r" and s: "status_code r = 200"
    "ET_fromstring E (body r) = Some tree" "sub_nodes ''PubmedArticle'' tree = []" by simp_all
  from fetch_papers_fetched [OF h] s
  show "fst (fetch_papers E q w) = Inr []" and "messages_of E q w = []"
    by (simp_all add: messages_of_def extract_papers_sub_nodes)
qed

theorem failure_messages_witness:
  "messages_of (canned (reply 500) None None None) ''cancer'' fresh =
     [''Error: Failed to fetch data from PubMed.''] \<and>
   fst (fetch_papers (canned (reply 500) None None None) ''cancer'' fresh) = Inr [] \<and>
   messages_of (canned (reply 200) (ids_found [JStr ''12345'']) (reply 404) None) ''cancer'' fresh =
     [''Error: Failed to fetch paper details.''] \<and>
   fst (fetch_papers (canned (reply 200) (ids_found [JStr ''12345'']) (reply 404) None)
     ''cancer'' fresh) = Inr [] \<and>
   messages_of (canned (reply 200) (ids_found []) None None) ''cancer'' fresh =
     [''No papers found for the given query.''] \<and>
   fst (fetch_papers (canned (reply 200) (ids_found []) None None) ''cancer'' fresh) = Inr [] \<and>
   messages_of (canned (reply 200) (ids_found [JStr ''12345'']) (reply 200)
     (Some (article_set []))) ''cancer'' fresh = [] \<and>
   fst (fetch_papers (canned (reply 200) (ids_found [JStr ''12345'']) (reply 200)
     (Some (article_set []))) ''cancer'' fresh) = Inr []"
proof -
  let ?E1 = "canned (reply 500) None None None"
  let ?E2 = "canned (reply 200) (ids_found [JStr ''12345'']) (reply 404) None"
  let ?E3 = "canned (reply 200) (ids_found []) None None"
  let ?E4 = "canned (reply 200) (ids_found [JStr ''12345'']) (reply 200) (Some (article_set []))"
  let ?data = "JObj [(''esearchresult'', JObj [(''idlist'', JArr [])])]"
  have a: "requests_get ?E1 PUBMED_SEARCH_URL (search_params ''cancer'') =
      Some \<lparr>status_code = 500, body = []\<rparr> \<and> status_code \<lparr>status_code = 500, body = []\<rparr> \<noteq> 200"
    by (simp add: canned_simps reply_def)
  have b: "fetch_response ?E2 ''cancer'' fresh = Some \<lparr>status_code = 404, body = []\<rparr> \<and>
      status_code \<lparr>status_code = 404, body = []\<rparr> \<noteq> 200"
    unfolding canned_fetch_response by (simp add: reply_def)
  have c: "requests_get ?E3 PUBMED_SEARCH_URL (search_params ''cancer'') =
      Some \<lparr>status_code = 200, body = []\<rparr> \<and> status_code \<lparr>status_code = 200, body = []\<rparr> = 200 \<and>
      json_loads ?E3 (body \<lparr>status_code = 200, body = []\<rparr>) = Some ?data \<and>
      idlist ?data = Inr (JArr [])"
    by (simp add: canned_simps reply_def ids_found_def idlist_def)
  have d: "fetch_response ?E4 ''cancer'' fresh = Some \<lparr>status_code = 200, body = []\<rparr> \<and>
      status_code \<lparr>status_code = 200, body = []\<rparr> = 200 \<and>
      ET_fromstring ?E4 (body \<lparr>status_code = 200, body = []\<rparr>) = Some (article_set []) \<and>
      sub_nodes ''PubmedArticle'' (article_set []) = []"
    unfolding canned_fetch_response by (simp add: reply_def canned_simps sub_nodes_article_set)
  note 1 = failure_messages [of ?E1 "''cancer''" _ fresh, THEN conjunct1, THEN mp, OF a]
  note 2 = failure_messages [of ?E2 "''cancer''" _ fresh, THEN conjunct2, THEN conjunct1,
      THEN mp, OF b]
  note 3 = failure_messages [of ?E3 "''cancer''" _ fresh, THEN conjunct2, THEN conjunct2,
      THEN conjunct1, THEN mp, OF c]
  note 4 = failure_messages [of ?E4 "''cancer''" _ fresh, THEN conjunct2, THEN conjunct2,
      THEN conjunct2, THEN mp, OF d]
  from 1 2 3 4 show ?thesis by simp
qed

text \<open>An empty article set: the empty list, and no line printed.\<close>

theorem empty_article_set_silent:
  "fst (fetch_papers (canned (reply 200) (ids_found [JStr ''12345'']) (reply 200)
     (Some (article_set []))) ''cancer'' fresh) = Inr [] \<and>
   printed (snd (fetch_papers (canned (reply 200) (ids_found [JStr ''12345'']) (reply 200)
     (Some (article_set []))) ''cancer'' fresh)) = []"
  unfolding canned_fetch_step
  by (simp add: reply_def fresh_def extract_papers_sub_nodes sub_nodes_article_set)

end
